theory Spec2Isabelle
  imports Main "HOL-Library.Word" "HOL-Library.Sublist"
begin

section \<open>Values shared by the adapters\<close>

text \<open>
  The repository is TypeScript running on Node. A value that may be \<open>undefined\<close> is an
  \<open>option\<close>; a thrown or rejected value is an error object, of which the code reads two
  properties, \<open>code\<close> and \<open>message\<close>, either of which may be missing. The outcome of a
  promise (and of a \<open>try\<close> block) is a sum: \<open>Inl\<close> is the rejection, \<open>Inr\<close> the value.
\<close>

type_synonym byte = "8 word"

datatype js_error = JsError (code: "string option") (message: "string option")

text \<open>\<open>new Error(msg)\<close>: an error object with a message and no \<open>code\<close> property.\<close>

definition new_Error :: "string \<Rightarrow> js_error" where
  "new_Error msg = JsError None (Some msg)"

text \<open>\<open>a || b\<close> on a \<open>string | undefined\<close> with a string default.\<close>

fun or_default :: "string option \<Rightarrow> string \<Rightarrow> string" where
  "or_default None d = d"
| "or_default (Some s) d = (if s = [] then d else s)"

text \<open>\<open>String.prototype.includes\<close>: the second string occurs contiguously in the first.\<close>

fun starts_with :: "string \<Rightarrow> string \<Rightarrow> bool" where
  "starts_with s [] = True"
| "starts_with [] (c # cs) = False"
| "starts_with (d # ds) (c # cs) = (d = c \<and> starts_with ds cs)"

fun str_includes :: "string \<Rightarrow> string \<Rightarrow> bool" where
  "str_includes [] t = (t = [])"
| "str_includes (c # cs) t = (starts_with (c # cs) t \<or> str_includes cs t)"

text \<open>Decimal rendering of a number inside a template literal.\<close>

definition digit_char :: "nat \<Rightarrow> char" where
  "digit_char d = char_of (48 + d)"

function show_nat :: "nat \<Rightarrow> string" where
  "show_nat n = (if n < 10 then [digit_char n] else show_nat (n div 10) @ [digit_char (n mod 10)])"
  by pat_completeness auto
termination
  by (relation "measure (\<lambda>n. n)") auto

declare show_nat.simps [simp del]

text \<open>\<open>`${statusCode}`\<close> for a \<open>number | undefined\<close>.\<close>

fun show_status :: "nat option \<Rightarrow> string" where
  "show_status None = ''undefined''"
| "show_status (Some c) = show_nat c"

section \<open>The retrying image download (\<open>processImage\<close>)\<close>

text \<open>
  The source registers two callbacks on a request: one for the end of the response, with
  its \<open>statusCode\<close> (which Node types as \<open>number | undefined\<close>) and the chunks that
  the \<open>data\<close> events pushed, and one for the \<open>error\<close> event of the request.
\<close>

datatype http_callback =
    ResponseEnd "nat option" "byte list list"
  | RequestError js_error

text \<open>
  What the environment does with one call of \<open>https.request\<close>. The call itself throws
  (Node does so for a URL it cannot parse and for a protocol other than \<open>https:\<close>), or
  the request is issued and later runs one of the two callbacks, or it is issued and runs
  neither (a response that is aborted after its headers ends with neither event, and the
  source sets no timeout).
\<close>

datatype http_outcome =
    RequestThrows js_error
  | RunsCallback http_callback
  | NoCallback

text \<open>What a call does to the outside world, in the order it does it.\<close>

datatype console_msg =
    RetryingImageDownload int string
  | RetryingDueToError "string option" int
  | FailedAfterRetries string
  | FailedToFetch string "string option"
  | UploadedImage string
  | SkippingImageUpload "string option"
  | ErrorUploadingImage "string option" js_error
  | PromiseAllError js_error

text \<open>
  The client that \<open>configureS3\<close> builds and the input of \<open>PutObjectCommand\<close>, as the
  source fills them in.
\<close>

record S3Client =
  accessKeyId :: string
  secretAccessKey :: string
  region :: string
  endpoint :: string

record PutObjectCommand =
  Bucket :: "string option"
  Key :: string
  Body :: "byte list"
  ContentType :: string
  ACL :: string
  Tagging :: string
  CacheControl :: string

datatype event =
    HttpsRequest string
  | SetTimeout int
  | S3Send S3Client PutObjectCommand
  | ConsoleLog console_msg
  | ConsoleWarn console_msg
  | ConsoleError console_msg
  | UncaughtException js_error

text \<open>
  \<open>response.statusCode && response.statusCode >= 200 && response.statusCode < 300\<close>
\<close>

fun status_ok :: "nat option \<Rightarrow> bool" where
  "status_ok None = False"
| "status_ok (Some c) = (c \<noteq> 0 \<and> 200 \<le> c \<and> c < 300)"

text \<open>
  A call \<open>attempt(n)\<close> either throws, when \<open>https.request\<close> does, or returns, and then
  the promise is resolved, rejected or left pending for ever (\<open>None\<close>) by what follows.
  A retry runs \<open>attempt(n - 1)\<close> in a timer callback: an exception there is caught by
  nobody, and the promise stays pending.
\<close>

datatype attempt_result =
    Throws js_error
  | Promise "(js_error + byte list) option"

fun in_timer ::
  "event list \<times> attempt_result \<Rightarrow> event list \<times> (js_error + byte list) option"
where
  "in_timer (evs, Throws err) = (evs @ [UncaughtException err], None)"
| "in_timer (evs, Promise p) = (evs, p)"

text \<open>
  \<open>attempt(n)\<close>. The argument \<open>http\<close> gives the outcome of each call of
  \<open>https.request\<close> by its position (\<open>k\<close> is the number of requests made before this
  one); \<open>n\<close> is the source's counter of retries left, a JavaScript number used as an
  integer. The result is the trace of effects and what becomes of the call and the promise.
\<close>

function attempt ::
  "string \<Rightarrow> int \<Rightarrow> (nat \<Rightarrow> http_outcome) \<Rightarrow> nat \<Rightarrow> int \<Rightarrow> event list \<times> attempt_result"
where
  "attempt url delay http k n =
     (case http k of
        RequestThrows err \<Rightarrow> ([], Throws err)
      | NoCallback \<Rightarrow> ([HttpsRequest url], Promise None)
      | RunsCallback (ResponseEnd statusCode chunks) \<Rightarrow>
          if status_ok statusCode then
            ([HttpsRequest url], Promise (Some (Inr (concat chunks))))
          else if n > 0 then
            (case in_timer (attempt url delay http (Suc k) (n - 1)) of
               (evs, p) \<Rightarrow>
                 ([HttpsRequest url, ConsoleWarn (RetryingImageDownload (3 - n + 1) url),
                   SetTimeout delay] @ evs, Promise p))
          else
            ([HttpsRequest url, ConsoleError (FailedAfterRetries url)],
             Promise (Some (Inl (new_Error
               (''Image download failed. Status: '' @ show_status statusCode)))))
      | RunsCallback (RequestError err) \<Rightarrow>
          if n > 0 then
            (case in_timer (attempt url delay http (Suc k) (n - 1)) of
               (evs, p) \<Rightarrow>
                 ([HttpsRequest url, ConsoleWarn (RetryingDueToError (message err) (3 - n + 1)),
                   SetTimeout delay] @ evs, Promise p))
          else
            ([HttpsRequest url, ConsoleError (FailedToFetch url (message err))],
             Promise (Some (Inl err))))"
  by pat_completeness auto
termination
  by (relation "measure (\<lambda>(url, delay, http, k, n). nat n)") auto

declare attempt.simps [simp del]

text \<open>
  \<open>processImage\<close>: the executor of the promise calls \<open>attempt(retries)\<close>; if that call
  throws, the promise is rejected with what it threw. The result is the trace and how the
  promise settles, \<open>None\<close> when it never does.
\<close>

definition processImage ::
  "string \<Rightarrow> int \<Rightarrow> int \<Rightarrow> (nat \<Rightarrow> http_outcome)
     \<Rightarrow> event list \<times> (js_error + byte list) option"
where
  "processImage url retries delay http =
     (case attempt url delay http 0 retries of
        (evs, Throws err) \<Rightarrow> (evs, Some (Inl err))
      | (evs, Promise p) \<Rightarrow> (evs, p))"



section \<open>Uploading to S3 (\<open>configureS3\<close>, \<open>uploadImageToS3\<close>, \<open>uploadImagesToS3\<close>)\<close>

record process_env =
  AWS_ACCESS_KEY_ID :: "string option"
  AWS_SECRET_ACCESS_KEY :: "string option"
  AWS_REGION :: "string option"
  S3_ENDPOINT :: "string option"
  S3_BUCKET_NAME :: "string option"

record UploadToS3Type =
  originalImgLink :: "string option"
  userId :: "string option"
  location :: string

text \<open>
  Modelled from the spec: the type \<open>UploadReturnType\<close> is imported from \<open>../types\<close>, which
  is not among the sources; the spec gives it as the upload result record
  \<open>{ location: string, uploaded: boolean }\<close>, and the function builds exactly these two
  fields.
\<close>

record UploadReturnType =
  location :: string
  uploaded :: bool

definition configureS3 :: "process_env \<Rightarrow> S3Client option" where
  "configureS3 env =
     (case (AWS_ACCESS_KEY_ID env, AWS_SECRET_ACCESS_KEY env) of
        (Some key, Some secret) \<Rightarrow>
          if key \<noteq> [] \<and> secret \<noteq> [] then
            Some \<lparr>accessKeyId = key, secretAccessKey = secret,
                  region = or_default (AWS_REGION env) ''us-east-2'',
                  endpoint = or_default (S3_ENDPOINT env) ''https://s3.us-east-2.amazonaws.com''\<rparr>
          else None
      | _ \<Rightarrow> None)"

text \<open>
  What the network does for one call of \<open>uploadImageToS3\<close>: the outcome of each of its
  calls of \<open>https.request\<close>, and whether \<open>s3.send\<close> resolves (\<open>None\<close>) or rejects with
  an error.
\<close>

record upload_net =
  http :: "nat \<Rightarrow> http_outcome"
  s3_send :: "S3Client \<Rightarrow> PutObjectCommand \<Rightarrow> js_error option"

text \<open>\<open>`userId=${userId}`\<close> for a \<open>string | undefined\<close>.\<close>

fun show_string :: "string option \<Rightarrow> string" where
  "show_string None = ''undefined''"
| "show_string (Some s) = s"

definition put_command :: "process_env \<Rightarrow> UploadToS3Type \<Rightarrow> byte list \<Rightarrow> PutObjectCommand" where
  "put_command env inp body =
     \<lparr>Bucket = S3_BUCKET_NAME env,
      Key = UploadToS3Type.location inp,
      Body = body,
      ContentType = ''image/png'',
      ACL = ''public-read'',
      Tagging = ''userId='' @ show_string (userId inp),
      CacheControl = ''public, max-age=2592000''\<rparr>"

text \<open>
  \<open>error.code === "ENOTFOUND" || error.message?.includes("ENOTFOUND")\<close>
\<close>

definition is_network_issue :: "js_error \<Rightarrow> bool" where
  "is_network_issue error =
     (code error = Some ''ENOTFOUND'' \<or>
      (case message error of None \<Rightarrow> False | Some m \<Rightarrow> str_includes m ''ENOTFOUND''))"

text \<open>The \<open>catch\<close> block of \<open>uploadImageToS3\<close>: what it logs and how the call settles.\<close>

definition uploadImageToS3_catch ::
  "UploadToS3Type \<Rightarrow> js_error \<Rightarrow> event list \<times> (js_error + UploadReturnType)"
where
  "uploadImageToS3_catch inp error =
     (if is_network_issue error then
        ([ConsoleWarn (SkippingImageUpload (message error))],
         Inr \<lparr>location = UploadToS3Type.location inp, uploaded = False\<rparr>)
      else
        ([ConsoleError (ErrorUploadingImage (map_option (take 50) (originalImgLink inp)) error)],
         Inr \<lparr>location = UploadToS3Type.location inp, uploaded = False\<rparr>))"

text \<open>
  The \<open>try\<close> block: the trace, and the value returned or the error thrown; \<open>None\<close> when
  the awaited download never settles, so that the block never ends.
\<close>

definition uploadImageToS3_try ::
  "process_env \<Rightarrow> upload_net \<Rightarrow> UploadToS3Type
     \<Rightarrow> event list \<times> (js_error + UploadReturnType) option"
where
  "uploadImageToS3_try env net inp =
     (case originalImgLink inp of
        None \<Rightarrow> ([], Some (Inl (new_Error ''Image link is undefined'')))
      | Some link \<Rightarrow>
          if link = [] then ([], Some (Inl (new_Error ''Image link is undefined'')))
          else
            (case configureS3 env of
               None \<Rightarrow> ([], Some (Inl (new_Error ''Unable to configure S3'')))
             | Some s3 \<Rightarrow>
                 (case processImage link 3 1500 (http net) of
                    (evs, None) \<Rightarrow> (evs, None)
                  | (evs, Some (Inl err)) \<Rightarrow> (evs, Some (Inl err))
                  | (evs, Some (Inr body)) \<Rightarrow>
                      (case s3_send net s3 (put_command env inp body) of
                         Some err \<Rightarrow>
                           (evs @ [S3Send s3 (put_command env inp body)], Some (Inl err))
                       | None \<Rightarrow>
                           (evs @ [S3Send s3 (put_command env inp body),
                                   ConsoleLog (UploadedImage (UploadToS3Type.location inp))],
                            Some (Inr \<lparr>location = UploadToS3Type.location inp,
                                       uploaded = True\<rparr>))))))"

text \<open>
  \<open>uploadImageToS3\<close>: the trace and how the promise of the call settles, \<open>None\<close> when it
  never does.
\<close>

definition uploadImageToS3 ::
  "process_env \<Rightarrow> upload_net \<Rightarrow> UploadToS3Type
     \<Rightarrow> event list \<times> (js_error + UploadReturnType) option"
where
  "uploadImageToS3 env net inp =
     (case uploadImageToS3_try env net inp of
        (evs, None) \<Rightarrow> (evs, None)
      | (evs, Some (Inr result)) \<Rightarrow> (evs, Some (Inr result))
      | (evs, Some (Inl error)) \<Rightarrow>
          (case uploadImageToS3_catch inp error of (logs, r) \<Rightarrow> (evs @ logs, Some r)))"




subsection \<open>The calls as the event loop runs them\<close>











section \<open>The API middleware (\<open>apiMiddleware\<close>)\<close>

text \<open>Of the request the wrapper reads \<open>req.method\<close> only.\<close>

record NextApiRequest =
  req_method :: "string option"

text \<open>
  What a call \<open>handler(req, res, session)\<close> does, seen from the wrapper: the handler is any
  function, so it throws, or returns a value, or returns a promise that rejects. (A promise
  that resolves gives the wrapper its value, as a plain value does.)
\<close>

datatype 'v handler_return =
    HandlerThrows js_error
  | HandlerReturns 'v
  | HandlerRejects js_error

datatype 's api_event =
    GetServerSession NextApiRequest
  | HandlerCall NextApiRequest 's
  | ResStatusJson nat string
  | ConsoleErrorMiddleware js_error

text \<open>\<open>methods.includes(req.method!)\<close>, the method being \<open>string | undefined\<close>.\<close>

fun methods_includes :: "string list \<Rightarrow> string option \<Rightarrow> bool" where
  "methods_includes methods None = False"
| "methods_includes methods (Some m) = (m \<in> set methods)"

text \<open>The dash of the 401 message is U+2013, three bytes in UTF-8.\<close>

definition unauthorized_msg :: string where
  "unauthorized_msg = ''Unauthorized '' @ [CHR 0xE2, CHR 0x80, CHR 0x93] @ '' please sign in''"

text \<open>
  The wrapped function. \<open>getServerSession\<close> is the library call: it resolves with a
  session or with \<open>null\<close> (\<open>Inr None\<close>), or fails (\<open>Inl\<close>). The result is the trace and how
  the promise of the wrapped function settles, \<open>Inr None\<close> being \<open>undefined\<close>.
\<close>

definition apiMiddleware ::
  "string list \<Rightarrow> (NextApiRequest \<Rightarrow> 's \<Rightarrow> 'v handler_return)
     \<Rightarrow> (NextApiRequest \<Rightarrow> js_error + 's option) \<Rightarrow> NextApiRequest
     \<Rightarrow> 's api_event list \<times> (js_error + 'v option)"
where
  "apiMiddleware methods handler getServerSession req =
     (if \<not> methods_includes methods (req_method req) then
        ([ResStatusJson 405 ''Method not allowed''], Inr None)
      else
        case getServerSession req of
          Inl error \<Rightarrow>
            ([GetServerSession req, ConsoleErrorMiddleware error,
              ResStatusJson 500 ''Internal server error in middleware''], Inr None)
        | Inr None \<Rightarrow>
            ([GetServerSession req, ResStatusJson 401 unauthorized_msg], Inr None)
        | Inr (Some session) \<Rightarrow>
            (case handler req session of
               HandlerThrows error \<Rightarrow>
                 ([GetServerSession req, HandlerCall req session, ConsoleErrorMiddleware error,
                   ResStatusJson 500 ''Internal server error in middleware''], Inr None)
             | HandlerReturns v \<Rightarrow>
                 ([GetServerSession req, HandlerCall req session], Inr (Some v))
             | HandlerRejects error \<Rightarrow>
                 ([GetServerSession req, HandlerCall req session], Inl error)))"

text \<open>What the trace says: the responses sent and the calls of the handler.\<close>

fun responses :: "'s api_event list \<Rightarrow> (nat \<times> string) list" where
  "responses [] = []"
| "responses (ResStatusJson status msg # evs) = (status, msg) # responses evs"
| "responses (ev # evs) = responses evs"

fun handler_calls :: "'s api_event list \<Rightarrow> (NextApiRequest \<times> 's) list" where
  "handler_calls [] = []"
| "handler_calls (HandlerCall req session # evs) = (req, session) # handler_calls evs"
| "handler_calls (ev # evs) = handler_calls evs"

section \<open>The database connection (\<open>connectDB\<close>)\<close>

text \<open>
  \<open>mongoose.connect\<close> resolves with an object of which the source reads
  \<open>connections[0].readyState\<close>, or rejects. \<open>ConnectResolves rs\<close> carries the
  \<open>readyState\<close> of each connection.
\<close>

datatype connect_outcome =
    ConnectResolves "nat list"
  | ConnectRejects js_error

datatype db_event =
    MongooseConnect string
  | LogConnected
  | LogConnectionError js_error
  | CallResolved
  | CallRejected js_error

text \<open>
  The module's state: the flag \<open>isConnected\<close>, the number of calls suspended at
  \<open>await mongoose.connect(...)\<close>, and the trace so far.
\<close>

record db_state =
  isConnected :: bool
  awaiting :: nat
  db_log :: "db_event list"

definition db_init :: db_state where
  "db_init = \<lparr>isConnected = False, awaiting = 0, db_log = []\<rparr>"

text \<open>A call of \<open>connectDB\<close>, up to its \<open>await\<close>.\<close>

definition connectDB_start :: "string \<Rightarrow> db_state \<Rightarrow> db_state" where
  "connectDB_start uri s =
     (if isConnected s then s\<lparr>db_log := db_log s @ [CallResolved]\<rparr>
      else s\<lparr>awaiting := Suc (awaiting s), db_log := db_log s @ [MongooseConnect uri]\<rparr>)"

text \<open>
  A suspended call goes on when its \<open>mongoose.connect\<close> has settled. Reading
  \<open>connections[0].readyState\<close> of an empty array throws a \<open>TypeError\<close> inside the \<open>try\<close>.
\<close>

definition connectDB_resume :: "db_state \<Rightarrow> connect_outcome \<Rightarrow> db_state" where
  "connectDB_resume s outcome =
     (if awaiting s = 0 then s
      else
        case outcome of
          ConnectResolves [] \<Rightarrow>
            s\<lparr>awaiting := awaiting s - 1,
              db_log := db_log s @
                [LogConnectionError
                   (new_Error ''Cannot read properties of undefined (reading 'readyState')''),
                 CallRejected (new_Error ''MongoDB connection failed'')]\<rparr>
        | ConnectResolves (readyState # rest) \<Rightarrow>
            s\<lparr>isConnected := (readyState \<noteq> 0), awaiting := awaiting s - 1,
              db_log := db_log s @ [LogConnected, CallResolved]\<rparr>
        | ConnectRejects error \<Rightarrow>
            s\<lparr>awaiting := awaiting s - 1,
              db_log := db_log s @
                [LogConnectionError error,
                 CallRejected (new_Error ''MongoDB connection failed'')]\<rparr>)"

text \<open>
  A call that runs to its end before anything else happens; \<open>outcome\<close> is what
  \<open>mongoose.connect\<close> does if the call invokes it.
\<close>

definition connectDB :: "string \<Rightarrow> db_state \<Rightarrow> connect_outcome \<Rightarrow> db_state" where
  "connectDB uri s outcome = connectDB_resume (connectDB_start uri s) outcome"

text \<open>A life of the process: calls start, and pending connection attempts settle.\<close>

datatype db_action =
    CallConnectDB
  | ConnectSettles connect_outcome

fun db_step :: "string \<Rightarrow> db_state \<Rightarrow> db_action \<Rightarrow> db_state" where
  "db_step uri s CallConnectDB = connectDB_start uri s"
| "db_step uri s (ConnectSettles outcome) = connectDB_resume s outcome"

definition db_run :: "string \<Rightarrow> db_state \<Rightarrow> db_action list \<Rightarrow> db_state" where
  "db_run uri s actions = foldl (db_step uri) s actions"

fun connect_invocations :: "db_event list \<Rightarrow> nat" where
  "connect_invocations [] = 0"
| "connect_invocations (MongooseConnect uri # evs) = Suc (connect_invocations evs)"
| "connect_invocations (ev # evs) = connect_invocations evs"

fun connections_established :: "db_event list \<Rightarrow> nat" where
  "connections_established [] = 0"
| "connections_established (LogConnected # evs) = Suc (connections_established evs)"
| "connections_established (ev # evs) = connections_established evs"

section \<open>Notions the properties are stated with\<close>

text \<open>
  An attempt succeeds when its response ends with a status from 200 to 299. An attempt
  whose response ends with another status or with none, or whose request emits an error,
  fails.
\<close>

fun attempt_ok :: "http_callback \<Rightarrow> bool" where
  "attempt_ok (ResponseEnd None chunks) = False"
| "attempt_ok (ResponseEnd (Some c) chunks) = (200 \<le> c \<and> c \<le> 299)"
| "attempt_ok (RequestError err) = False"

text \<open>The bytes of a response, and the error that a failed last attempt leaves.\<close>

fun response_bytes :: "http_callback \<Rightarrow> byte list" where
  "response_bytes (ResponseEnd statusCode chunks) = concat chunks"
| "response_bytes (RequestError err) = []"

fun failure_of :: "http_callback \<Rightarrow> js_error" where
  "failure_of (ResponseEnd statusCode chunks) =
     new_Error (''Image download failed. Status: '' @ show_status statusCode)"
| "failure_of (RequestError err) = err"

text \<open>
  A network on which every call of \<open>https.request\<close> issues a request that runs a callback:
  \<open>answered c send\<close> runs the callback \<open>c k\<close> for request \<open>k\<close> and does with
  \<open>s3.send\<close> as \<open>send\<close> says.
\<close>

definition answered ::
  "(nat \<Rightarrow> http_callback) \<Rightarrow> (S3Client \<Rightarrow> PutObjectCommand \<Rightarrow> js_error option) \<Rightarrow> upload_net"
where
  "answered c send = \<lparr>http = (\<lambda>k. RunsCallback (c k)), s3_send = send\<rparr>"


text \<open>The requests and timers of a trace, and the requests to S3.\<close>

fun is_net_event :: "event \<Rightarrow> bool" where
  "is_net_event (HttpsRequest url) = True"
| "is_net_event (SetTimeout delay) = True"
| "is_net_event ev = False"

definition net_events :: "event list \<Rightarrow> event list" where
  "net_events evs = filter is_net_event evs"

fun is_s3_send :: "event \<Rightarrow> bool" where
  "is_s3_send (S3Send s3 command) = True"
| "is_s3_send ev = False"

fun is_https_request :: "event \<Rightarrow> bool" where
  "is_https_request (HttpsRequest url) = True"
| "is_https_request ev = False"

text \<open>
  \<open>retry_pattern url delay m\<close>: a request, then \<open>m\<close> times a wait of \<open>delay\<close> followed
  by a request: \<open>m + 1\<close> attempts with the same delay between them.
\<close>

fun retry_pattern :: "string \<Rightarrow> int \<Rightarrow> nat \<Rightarrow> event list" where
  "retry_pattern url delay 0 = [HttpsRequest url]"
| "retry_pattern url delay (Suc m) = HttpsRequest url # SetTimeout delay # retry_pattern url delay m"

text \<open>
  Whether the download and the put of a call both succeed: there is a link, a client can be
  configured, \<open>processImage\<close> resolves, and \<open>s3.send\<close> resolves.
\<close>

definition download_and_put_succeed :: "process_env \<Rightarrow> upload_net \<Rightarrow> UploadToS3Type \<Rightarrow> bool" where
  "download_and_put_succeed env net inp =
     (case originalImgLink inp of
        None \<Rightarrow> False
      | Some link \<Rightarrow>
          link \<noteq> [] \<and>
          (case configureS3 env of
             None \<Rightarrow> False
           | Some s3 \<Rightarrow>
               (case snd (processImage link 3 1500 (http net)) of
                  Some (Inr body) \<Rightarrow> s3_send net s3 (put_command env inp body) = None
                | other \<Rightarrow> False)))"






text \<open>
  A connection attempt that resolves while the first connection is not ready
  (\<open>readyState\<close> 0) leaves the flag unset.
\<close>

fun resolves_unready :: "connect_outcome \<Rightarrow> bool" where
  "resolves_unready (ConnectResolves (readyState # rest)) = (readyState = 0)"
| "resolves_unready outcome = False"

section \<open>Inputs the properties are tried on\<close>

text \<open>
  A server that resets the first connection, answers the second request with 503, and
  then answers 200 with two chunks. A call of \<open>https.request\<close> that throws, as for a URL
  with the protocol \<open>http:\<close>. And a request that runs no callback.
\<close>

definition example_flaky :: "nat \<Rightarrow> http_callback" where
  "example_flaky k =
     (if k = 0 then RequestError (JsError (Some ''ECONNRESET'') (Some ''socket hang up''))
      else if k = 1 then ResponseEnd (Some 503) [[9]]
      else ResponseEnd (Some 200) [[1, 2], [3]])"



definition example_silent :: "nat \<Rightarrow> http_outcome" where
  "example_silent k = NoCallback"

text \<open>Requests, session lookups and handlers for the middleware.\<close>

definition example_get :: NextApiRequest where
  "example_get = \<lparr>req_method = Some ''GET''\<rparr>"

definition example_post :: NextApiRequest where
  "example_post = \<lparr>req_method = Some ''POST''\<rparr>"

definition session_of_user :: "NextApiRequest \<Rightarrow> js_error + string option" where
  "session_of_user req = Inr (Some ''user-1'')"

definition no_session :: "NextApiRequest \<Rightarrow> js_error + string option" where
  "no_session req = Inr None"

definition session_fails :: "NextApiRequest \<Rightarrow> js_error + string option" where
  "session_fails req = Inl (new_Error ''JWT decode failed'')"

definition echo_handler :: "NextApiRequest \<Rightarrow> string \<Rightarrow> string handler_return" where
  "echo_handler req session = HandlerReturns session"

definition throwing_handler :: "NextApiRequest \<Rightarrow> string \<Rightarrow> string handler_return" where
  "throwing_handler req session = HandlerThrows (new_Error ''boom'')"

definition rejecting_handler :: "NextApiRequest \<Rightarrow> string \<Rightarrow> string handler_return" where
  "rejecting_handler req session = HandlerRejects (new_Error ''boom'')"

text \<open>An environment with credentials, an image to upload, and three networks.\<close>

definition example_env :: process_env where
  "example_env =
     \<lparr>AWS_ACCESS_KEY_ID = Some ''AKIAEXAMPLE'', AWS_SECRET_ACCESS_KEY = Some ''secret'',
      AWS_REGION = None, S3_ENDPOINT = None, S3_BUCKET_NAME = Some ''smart-recipe-generator''\<rparr>"

definition example_image :: UploadToS3Type where
  "example_image =
     \<lparr>originalImgLink = Some ''https://img.example/a.png'', userId = Some ''u1'',
      location = ''images/a.png''\<rparr>"

definition example_no_link :: UploadToS3Type where
  "example_no_link = \<lparr>originalImgLink = None, userId = Some ''u1'', location = ''images/b.png''\<rparr>"

definition dns_error :: js_error where
  "dns_error = JsError (Some ''ENOTFOUND'') (Some ''getaddrinfo ENOTFOUND img.example'')"

definition s3_accepts :: "S3Client \<Rightarrow> PutObjectCommand \<Rightarrow> js_error option" where
  "s3_accepts s3 command = None"

definition s3_denies :: "S3Client \<Rightarrow> PutObjectCommand \<Rightarrow> js_error option" where
  "s3_denies s3 command = Some (JsError (Some ''AccessDenied'') (Some ''Access Denied''))"

definition always_dns_error :: "nat \<Rightarrow> http_callback" where
  "always_dns_error k = RequestError dns_error"

definition always_200 :: "nat \<Rightarrow> http_callback" where
  "always_200 k = ResponseEnd (Some 200) [[7]]"

definition net_ok :: upload_net where
  "net_ok = answered example_flaky s3_accepts"

definition net_dns :: upload_net where
  "net_dns = answered always_dns_error s3_accepts"

definition net_denied :: upload_net where
  "net_denied = answered always_200 s3_denies"

text \<open>Two calls of \<open>connectDB\<close> that both start before either connection attempt settles.\<close>

definition overlapping_calls :: "db_action list" where
  "overlapping_calls =
     [CallConnectDB, CallConnectDB,
      ConnectSettles (ConnectResolves [1]), ConnectSettles (ConnectResolves [1])]"






section \<open>The retry policy of \<open>processImage\<close>\<close>

text \<open>The test the source makes on the status code accepts exactly the statuses 200 to 299.\<close>

lemma status_ok_iff: "status_ok s \<longleftrightarrow> (\<exists>c. s = Some c \<and> 200 \<le> c \<and> c \<le> 299)"
  by (cases s) auto

lemma attempt_ok_status: "attempt_ok (ResponseEnd statusCode chunks) \<longleftrightarrow> status_ok statusCode"
  by (cases statusCode) auto

text \<open>
  The characterisation of \<open>attempt\<close> from any position \<open>k\<close> and counter \<open>n\<close>, by
  induction along its own recursion: it makes \<open>m\<close> retries, \<open>m\<close> at most \<open>n\<close>, each after
  an attempt that failed; and if the attempt after them runs a callback, either it
  succeeded and its bytes are the result, or all \<open>n\<close> retries are used up and its failure
  is the result.
\<close>

lemma attempt_char:
  "\<exists>m. m \<le> nat n \<and>
     (\<forall>j<m. \<exists>c. h (k + j) = RunsCallback c \<and> \<not> attempt_ok c) \<and>
     (\<forall>c. h (k + m) = RunsCallback c \<longrightarrow>
        net_events (fst (attempt url delay h k n)) = retry_pattern url delay m \<and>
        (attempt_ok c \<longrightarrow>
           snd (attempt url delay h k n) = Promise (Some (Inr (response_bytes c)))) \<and>
        (\<not> attempt_ok c \<longrightarrow>
           m = nat n \<and> snd (attempt url delay h k n) = Promise (Some (Inl (failure_of c)))))"
proof (induction url delay h k n rule: attempt.induct)
  case (1 url delay h k n)
  let ?goal = "\<lambda>m. m \<le> nat n \<and>
     (\<forall>j<m. \<exists>c. h (k + j) = RunsCallback c \<and> \<not> attempt_ok c) \<and>
     (\<forall>c. h (k + m) = RunsCallback c \<longrightarrow>
        net_events (fst (attempt url delay h k n)) = retry_pattern url delay m \<and>
        (attempt_ok c \<longrightarrow>
           snd (attempt url delay h k n) = Promise (Some (Inr (response_bytes c)))) \<and>
        (\<not> attempt_ok c \<longrightarrow>
           m = nat n \<and> snd (attempt url delay h k n) = Promise (Some (Inl (failure_of c)))))"
  show ?case
  proof (cases "\<exists>c. h k = RunsCallback c \<and> \<not> attempt_ok c \<and> n > 0")
    case False
    have "?goal 0"
    proof (intro conjI allI impI)
      fix c assume c: "h (k + 0) = RunsCallback c"
      then have hk: "h k = RunsCallback c" by simp
      show "net_events (fst (attempt url delay h k n)) = retry_pattern url delay 0"
        using hk False
        by (cases c)
          (auto simp: attempt.simps [of url delay h k n] net_events_def attempt_ok_status)
      show "snd (attempt url delay h k n) = Promise (Some (Inr (response_bytes c)))"
        if "attempt_ok c"
        using hk that
        by (cases c) (auto simp: attempt.simps [of url delay h k n] attempt_ok_status)
      show "0 = nat n" if "\<not> attempt_ok c"
        using hk that False by auto
      show "snd (attempt url delay h k n) = Promise (Some (Inl (failure_of c)))"
        if "\<not> attempt_ok c"
        using hk that False
        by (cases c) (auto simp: attempt.simps [of url delay h k n] attempt_ok_status)
    qed simp_all
    then show ?thesis by blast
  next
    case True
    then obtain c where hk: "h k = RunsCallback c" and bad: "\<not> attempt_ok c" and n0: "n > 0"
      by blast
    obtain evs r where rec: "attempt url delay h (Suc k) (n - 1) = (evs, r)"
      by (cases "attempt url delay h (Suc k) (n - 1)")
    have IH: "\<exists>m. m \<le> nat (n - 1) \<and>
       (\<forall>j<m. \<exists>c. h (Suc k + j) = RunsCallback c \<and> \<not> attempt_ok c) \<and>
       (\<forall>c. h (Suc k + m) = RunsCallback c \<longrightarrow>
          net_events (fst (attempt url delay h (Suc k) (n - 1))) = retry_pattern url delay m \<and>
          (attempt_ok c \<longrightarrow>
             snd (attempt url delay h (Suc k) (n - 1)) = Promise (Some (Inr (response_bytes c)))) \<and>
          (\<not> attempt_ok c \<longrightarrow>
             m = nat (n - 1) \<and>
             snd (attempt url delay h (Suc k) (n - 1)) = Promise (Some (Inl (failure_of c)))))"
    proof (cases c)
      case (ResponseEnd st ch)
      with hk bad n0 "1.IH"(1) [of c st ch] show ?thesis
        by (simp add: attempt_ok_status)
    next
      case (RequestError err)
      with hk n0 "1.IH"(2) [of c err] show ?thesis by simp
    qed
    then obtain m where m: "m \<le> nat (n - 1)"
      "\<forall>j<m. \<exists>c. h (Suc k + j) = RunsCallback c \<and> \<not> attempt_ok c"
      "\<forall>c. h (Suc k + m) = RunsCallback c \<longrightarrow>
          net_events evs = retry_pattern url delay m \<and>
          (attempt_ok c \<longrightarrow> r = Promise (Some (Inr (response_bytes c)))) \<and>
          (\<not> attempt_ok c \<longrightarrow> m = nat (n - 1) \<and> r = Promise (Some (Inl (failure_of c))))"
      using rec by auto
    have unfold: "fst (attempt url delay h k n) =
        (case c of
           ResponseEnd st ch \<Rightarrow>
             [HttpsRequest url, ConsoleWarn (RetryingImageDownload (3 - n + 1) url),
              SetTimeout delay]
         | RequestError err \<Rightarrow>
             [HttpsRequest url, ConsoleWarn (RetryingDueToError (message err) (3 - n + 1)),
              SetTimeout delay]) @ fst (in_timer (evs, r))
      \<and> snd (attempt url delay h k n) = Promise (snd (in_timer (evs, r)))"
      using hk bad n0 rec
      by (cases c)
        (auto simp: attempt.simps [of url delay h k n] attempt_ok_status split: prod.splits)
    have "?goal (Suc m)"
    proof (intro conjI allI impI)
      show "Suc m \<le> nat n" using m(1) n0 by linarith
    next
      fix j assume "j < Suc m"
      show "\<exists>c. h (k + j) = RunsCallback c \<and> \<not> attempt_ok c"
      proof (cases j)
        case 0
        with hk bad show ?thesis by simp
      next
        case (Suc j')
        with \<open>j < Suc m\<close> m(2) show ?thesis by simp
      qed
    next
      fix c' assume "h (k + Suc m) = RunsCallback c'"
      then have c': "h (Suc k + m) = RunsCallback c'" by simp
      from m(3) c' have ev: "net_events evs = retry_pattern url delay m"
        and ok: "attempt_ok c' \<longrightarrow> r = Promise (Some (Inr (response_bytes c')))"
        and ko: "\<not> attempt_ok c' \<longrightarrow> m = nat (n - 1) \<and> r = Promise (Some (Inl (failure_of c')))"
        by blast+
      from ok ko obtain p where r: "r = Promise p" by (cases "attempt_ok c'") auto
      show "net_events (fst (attempt url delay h k n)) = retry_pattern url delay (Suc m)"
        using unfold ev r by (cases c) (simp_all add: net_events_def)
      show "snd (attempt url delay h k n) = Promise (Some (Inr (response_bytes c')))"
        if "attempt_ok c'"
        using unfold ok that by simp
      show "Suc m = nat n" if "\<not> attempt_ok c'"
        using ko that n0 by linarith
      show "snd (attempt url delay h k n) = Promise (Some (Inl (failure_of c')))"
        if "\<not> attempt_ok c'"
        using unfold ko that by simp
    qed
    then show ?thesis by blast
  qed
qed



lemma processImage_of_promise:
  assumes "snd (attempt url delay h 0 retries) = Promise p"
  shows "processImage url retries delay h = (fst (attempt url delay h 0 retries), p)"
  using assms by (cases "attempt url delay h 0 retries") (simp add: processImage_def)



text \<open>
  It fails as well where a request runs neither callback: the promise is neither resolved
  nor rejected, and no retry is made.
\<close>

lemma processImage_silent:
  "processImage url 3 1500 example_silent = ([HttpsRequest url], None)"
  by (simp add: processImage_def attempt.simps example_silent_def)



text \<open>When every request runs a callback, the promise settles.\<close>

lemma processImage_answered:
  "\<exists>r. snd (processImage url retries delay (\<lambda>k. RunsCallback (c k))) = Some r"
proof -
  let ?h = "\<lambda>k. RunsCallback (c k)"
  obtain m where "\<forall>c'. ?h (0 + m) = RunsCallback c' \<longrightarrow>
        net_events (fst (attempt url delay ?h 0 retries)) = retry_pattern url delay m \<and>
        (attempt_ok c' \<longrightarrow>
           snd (attempt url delay ?h 0 retries) = Promise (Some (Inr (response_bytes c')))) \<and>
        (\<not> attempt_ok c' \<longrightarrow>
           m = nat retries \<and>
           snd (attempt url delay ?h 0 retries) = Promise (Some (Inl (failure_of c'))))"
    using attempt_char [of retries ?h 0 url delay] by blast
  then have "attempt_ok (c m) \<longrightarrow>
      snd (attempt url delay ?h 0 retries) = Promise (Some (Inr (response_bytes (c m))))"
    and "\<not> attempt_ok (c m) \<longrightarrow>
      snd (attempt url delay ?h 0 retries) = Promise (Some (Inl (failure_of (c m))))"
    by simp_all
  then obtain r where "snd (attempt url delay ?h 0 retries) = Promise (Some r)"
    by (cases "attempt_ok (c m)") auto
  from processImage_of_promise [OF this] show ?thesis by simp
qed

section \<open>The middleware\<close>

lemma methods_includes_iff:
  "methods_includes methods m \<longleftrightarrow> (\<exists>x. m = Some x \<and> x \<in> set methods)"
  by (cases m) simp_all

text \<open>
  C4. For every list of allowed methods, every handler and every request whose method is
  not in the list (or is missing), the wrapped function answers with status 405 and the body
  \<open>{ error: "Method not allowed" }\<close>, does nothing else, and never calls the handler.
\<close>

theorem apiMiddleware_method_not_allowed:
  assumes "\<forall>m. req_method req = Some m \<longrightarrow> m \<notin> set methods"
  shows "apiMiddleware methods handler getServerSession req =
           ([ResStatusJson 405 ''Method not allowed''], Inr None) \<and>
         responses (fst (apiMiddleware methods handler getServerSession req)) =
           [(405, ''Method not allowed'')] \<and>
         handler_calls (fst (apiMiddleware methods handler getServerSession req)) = []"
proof -
  from assms have "\<not> methods_includes methods (req_method req)"
    by (simp add: methods_includes_iff)
  then show ?thesis by (simp add: apiMiddleware_def)
qed

theorem apiMiddleware_method_not_allowed_witness:
  "req_method example_post = Some ''POST'' \<and> ''POST'' \<notin> set [''GET'', ''PUT''] \<and>
   responses (fst (apiMiddleware [''GET'', ''PUT''] echo_handler session_of_user example_post)) =
     [(405, ''Method not allowed'')] \<and>
   handler_calls (fst (apiMiddleware [''GET'', ''PUT''] echo_handler session_of_user example_post)) = []"
proof -
  have m: "req_method example_post = Some ''POST''" by (simp add: example_post_def)
  have n: "''POST'' \<notin> set [''GET'', ''PUT'']" by simp
  from m n have h: "\<forall>m. req_method example_post = Some m \<longrightarrow> m \<notin> set [''GET'', ''PUT'']"
    by simp
  from apiMiddleware_method_not_allowed [OF h, of echo_handler session_of_user] m n
  show ?thesis by blast
qed

text \<open>
  On the paths that run inside the \<open>try\<close> block before the handler has returned, the
  wrapper does what is said of it: with no session the response is 401 and the handler is
  not called; when session retrieval fails the response is 500; with a session the handler
  is called exactly once, with the request and that session; and when the handler throws
  while it is being called, the \<open>catch\<close> block answers 500.
\<close>

lemma apiMiddleware_caught_paths:
  assumes "req_method req = Some m" and "m \<in> set methods"
  shows "(getServerSession req = Inr None \<longrightarrow>
            responses (fst (apiMiddleware methods handler getServerSession req)) =
              [(401, unauthorized_msg)] \<and>
            handler_calls (fst (apiMiddleware methods handler getServerSession req)) = []) \<and>
         (\<forall>error. getServerSession req = Inl error \<longrightarrow>
            responses (fst (apiMiddleware methods handler getServerSession req)) =
              [(500, ''Internal server error in middleware'')] \<and>
            handler_calls (fst (apiMiddleware methods handler getServerSession req)) = []) \<and>
         (\<forall>session. getServerSession req = Inr (Some session) \<longrightarrow>
            handler_calls (fst (apiMiddleware methods handler getServerSession req)) =
              [(req, session)] \<and>
            (\<forall>error. handler req session = HandlerThrows error \<longrightarrow>
               responses (fst (apiMiddleware methods handler getServerSession req)) =
                 [(500, ''Internal server error in middleware'')]) \<and>
            (\<forall>v. handler req session = HandlerReturns v \<longrightarrow>
               responses (fst (apiMiddleware methods handler getServerSession req)) = [] \<and>
               snd (apiMiddleware methods handler getServerSession req) = Inr (Some v)))"
proof -
  from assms have inc: "methods_includes methods (req_method req)"
    by (simp add: methods_includes_iff)
  show ?thesis
  proof (cases "getServerSession req")
    case (Inl error)
    with inc show ?thesis by (simp add: apiMiddleware_def)
  next
    case (Inr so)
    show ?thesis
    proof (cases so)
      case None
      with Inr inc show ?thesis by (simp add: apiMiddleware_def)
    next
      case (Some session)
      with Inr inc show ?thesis
        by (cases "handler req session") (simp_all add: apiMiddleware_def)
    qed
  qed
qed

lemma apiMiddleware_caught_paths_example:
  "req_method example_get = Some ''GET'' \<and> ''GET'' \<in> set [''GET'', ''PUT''] \<and>
   responses (fst (apiMiddleware [''GET'', ''PUT''] echo_handler no_session example_get)) =
     [(401, unauthorized_msg)] \<and>
   handler_calls (fst (apiMiddleware [''GET'', ''PUT''] echo_handler no_session example_get)) = [] \<and>
   responses (fst (apiMiddleware [''GET'', ''PUT''] echo_handler session_fails example_get)) =
     [(500, ''Internal server error in middleware'')] \<and>
   responses (fst (apiMiddleware [''GET'', ''PUT''] throwing_handler session_of_user example_get)) =
     [(500, ''Internal server error in middleware'')] \<and>
   handler_calls (fst (apiMiddleware [''GET'', ''PUT''] echo_handler session_of_user example_get)) =
     [(example_get, ''user-1'')] \<and>
   snd (apiMiddleware [''GET'', ''PUT''] echo_handler session_of_user example_get) =
     Inr (Some ''user-1'')"
proof -
  have m: "req_method example_get = Some ''GET''" by (simp add: example_get_def)
  have a: "''GET'' \<in> set [''GET'', ''PUT'']" by simp
  have "no_session example_get = Inr None" by (simp add: no_session_def)
  moreover have "session_fails example_get = Inl (new_Error ''JWT decode failed'')"
    by (simp add: session_fails_def)
  moreover have "session_of_user example_get = Inr (Some ''user-1'')"
    by (simp add: session_of_user_def)
  moreover have "throwing_handler example_get ''user-1'' = HandlerThrows (new_Error ''boom'')"
    by (simp add: throwing_handler_def)
  moreover have "echo_handler example_get ''user-1'' = HandlerReturns ''user-1''"
    by (simp add: echo_handler_def)
  ultimately show ?thesis
    using apiMiddleware_caught_paths [OF m a, of no_session echo_handler]
      apiMiddleware_caught_paths [OF m a, of session_fails echo_handler]
      apiMiddleware_caught_paths [OF m a, of session_of_user throwing_handler]
      apiMiddleware_caught_paths [OF m a, of session_of_user echo_handler]
      m a
    by simp
qed

text \<open>
  C5. With an allowed method and a session, a handler that is an \<open>async\<close> function and
  throws returns a promise that rejects. The wrapper returns that promise from inside the
  \<open>try\<close> block without awaiting it, so the \<open>catch\<close> block, which answers 500 on the two
  paths above, does not run: the handler is called once with the session, no response is
  sent, and the promise of the wrapped function rejects with the handler's error.
\<close>

theorem apiMiddleware_rejecting_handler:
  "req_method example_get = Some ''GET'' \<and> ''GET'' \<in> set [''GET''] \<and>
   session_of_user example_get = Inr (Some ''user-1'') \<and>
   rejecting_handler example_get ''user-1'' = HandlerRejects (new_Error ''boom'') \<and>
   handler_calls (fst (apiMiddleware [''GET''] rejecting_handler session_of_user example_get)) =
     [(example_get, ''user-1'')] \<and>
   responses (fst (apiMiddleware [''GET''] rejecting_handler session_of_user example_get)) = [] \<and>
   snd (apiMiddleware [''GET''] rejecting_handler session_of_user example_get) =
     Inl (new_Error ''boom'')"
  by (simp add: apiMiddleware_def example_get_def session_of_user_def rejecting_handler_def)

section \<open>The upload of one image\<close>

text \<open>The model of \<open>includes\<close> is containment as a contiguous sublist.\<close>

lemma starts_with_prefix: "starts_with s t \<longleftrightarrow> prefix t s"
  by (induction s t rule: starts_with.induct) auto

lemma str_includes_sublist: "str_includes s t \<longleftrightarrow> sublist t s"
proof (induction s)
  case Nil
  show ?case by simp
next
  case (Cons c cs)
  then show ?case
    by (simp add: starts_with_prefix sublist_Cons_right del: starts_with.simps)
qed

lemma is_network_issue_iff:
  "is_network_issue error \<longleftrightarrow>
     code error = Some ''ENOTFOUND'' \<or> (\<exists>m. message error = Some m \<and> sublist ''ENOTFOUND'' m)"
  by (cases "message error") (simp_all add: is_network_issue_def str_includes_sublist)

lemma uploadImageToS3_catch_result:
  "snd (uploadImageToS3_catch inp error) =
     Inr \<lparr>location = UploadToS3Type.location inp, uploaded = False\<rparr>"
  by (simp add: uploadImageToS3_catch_def)

lemma uploadImageToS3_of_error:
  assumes "uploadImageToS3_try env net inp = (evs, Some (Inl error))"
  shows "uploadImageToS3 env net inp =
           (evs @ fst (uploadImageToS3_catch inp error),
            Some (Inr \<lparr>location = UploadToS3Type.location inp, uploaded = False\<rparr>))"
  using assms uploadImageToS3_catch_result [of inp error]
  by (cases "uploadImageToS3_catch inp error") (simp add: uploadImageToS3_def)

lemma uploadImageToS3_of_value:
  assumes "uploadImageToS3_try env net inp = (evs, Some (Inr r))"
  shows "uploadImageToS3 env net inp = (evs, Some (Inr r))"
  using assms by (simp add: uploadImageToS3_def)

lemma uploadImageToS3_of_pending:
  assumes "uploadImageToS3_try env net inp = (evs, None)"
  shows "uploadImageToS3 env net inp = (evs, None)"
  using assms by (simp add: uploadImageToS3_def)

lemma uploadImageToS3_try_snd:
  "snd (uploadImageToS3_try env net inp) =
     (case originalImgLink inp of
        None \<Rightarrow> Some (Inl (new_Error ''Image link is undefined''))
      | Some link \<Rightarrow>
          if link = [] then Some (Inl (new_Error ''Image link is undefined''))
          else
            (case configureS3 env of
               None \<Rightarrow> Some (Inl (new_Error ''Unable to configure S3''))
             | Some s3 \<Rightarrow>
                 (case snd (processImage link 3 1500 (http net)) of
                    None \<Rightarrow> None
                  | Some (Inl err) \<Rightarrow> Some (Inl err)
                  | Some (Inr body) \<Rightarrow>
                      (case s3_send net s3 (put_command env inp body) of
                         Some err \<Rightarrow> Some (Inl err)
                       | None \<Rightarrow>
                           Some (Inr \<lparr>location = UploadToS3Type.location inp,
                                      uploaded = True\<rparr>)))))"
  by (simp add: uploadImageToS3_try_def split: option.splits prod.splits sum.splits)

lemma uploadImageToS3_try_succeeds:
  "download_and_put_succeed env net inp \<longleftrightarrow>
     snd (uploadImageToS3_try env net inp) =
       Some (Inr \<lparr>location = UploadToS3Type.location inp, uploaded = True\<rparr>)"
  by (simp add: uploadImageToS3_try_snd download_and_put_succeed_def
      split: option.splits sum.splits)

lemma uploadImageToS3_try_returns:
  assumes "snd (uploadImageToS3_try env net inp) = Some (Inr r)"
  shows "r = \<lparr>location = UploadToS3Type.location inp, uploaded = True\<rparr>"
  using assms
  by (simp add: uploadImageToS3_try_snd split: option.splits sum.splits if_splits)

lemma uploadImageToS3_try_value:
  assumes "uploadImageToS3_try env net inp = (evs, Some (Inr r))"
  shows "r = \<lparr>location = UploadToS3Type.location inp, uploaded = True\<rparr> \<and>
         download_and_put_succeed env net inp"
proof -
  from assms have s: "snd (uploadImageToS3_try env net inp) = Some (Inr r)" by simp
  from uploadImageToS3_try_returns [OF s] s show ?thesis
    by (simp add: uploadImageToS3_try_succeeds)
qed

lemma uploadImageToS3_try_error:
  assumes "uploadImageToS3_try env net inp = (evs, Some (Inl error))"
  shows "\<not> download_and_put_succeed env net inp"
  using assms by (simp add: uploadImageToS3_try_succeeds)

lemma uploadImageToS3_try_pending:
  assumes "uploadImageToS3_try env net inp = (evs, None)"
  shows "\<not> download_and_put_succeed env net inp"
  using assms by (simp add: uploadImageToS3_try_succeeds)

text \<open>
  What a call settles with says whether the download and the put both succeeded; it
  stays pending exactly when its \<open>try\<close> block never ends.
\<close>

lemma uploadImageToS3_result:
  "snd (uploadImageToS3 env net inp) =
     (if snd (uploadImageToS3_try env net inp) = None then None
      else Some (Inr \<lparr>location = UploadToS3Type.location inp,
                      uploaded = download_and_put_succeed env net inp\<rparr>))"
proof (cases "uploadImageToS3_try env net inp")
  case (Pair evs r)
  show ?thesis
  proof (cases r)
    case None
    with Pair uploadImageToS3_of_pending [of env net inp evs] show ?thesis by simp
  next
    case (Some v)
    show ?thesis
    proof (cases v)
      case (Inl error)
      with Pair Some uploadImageToS3_of_error [of env net inp evs error]
        uploadImageToS3_try_error [of env net inp evs error]
      show ?thesis by simp
    next
      case (Inr u)
      with Pair Some uploadImageToS3_of_value [of env net inp evs u]
        uploadImageToS3_try_value [of env net inp evs u]
      show ?thesis by simp
    qed
  qed
qed

text \<open>On a network where every request runs a callback, the \<open>try\<close> block ends.\<close>

lemma uploadImageToS3_try_answered:
  "snd (uploadImageToS3_try env (answered c send) inp) \<noteq> None"
proof -
  have p: "snd (processImage url 3 1500 (http (answered c send))) \<noteq> None" for url
    using processImage_answered [of url 3 1500 c] by (auto simp: answered_def)
  show ?thesis
    by (simp add: uploadImageToS3_try_snd p split: option.splits sum.splits)
qed

lemma uploadImageToS3_result_answered:
  "snd (uploadImageToS3 env (answered c send) inp) =
     Some (Inr \<lparr>location = UploadToS3Type.location inp,
                uploaded = download_and_put_succeed env (answered c send) inp\<rparr>)"
  by (simp add: uploadImageToS3_result uploadImageToS3_try_answered)

text \<open>
  C2. Whenever the error that reaches the \<open>catch\<close> block of \<open>uploadImageToS3\<close> has the code
  \<open>ENOTFOUND\<close>, or a message that contains \<open>ENOTFOUND\<close>, the call does not reject: it logs
  a warning and resolves with \<open>{ location, uploaded: false }\<close>, \<open>location\<close> being the
  input's.
\<close>

theorem uploadImageToS3_dns_failure:
  assumes "uploadImageToS3_try env net inp = (evs, Some (Inl error))"
    and "code error = Some ''ENOTFOUND'' \<or> (\<exists>m. message error = Some m \<and> sublist ''ENOTFOUND'' m)"
  shows "uploadImageToS3 env net inp =
           (evs @ [ConsoleWarn (SkippingImageUpload (message error))],
            Some (Inr \<lparr>location = UploadToS3Type.location inp, uploaded = False\<rparr>))"
proof -
  from assms(2) have "is_network_issue error" by (simp add: is_network_issue_iff)
  then have "fst (uploadImageToS3_catch inp error) =
      [ConsoleWarn (SkippingImageUpload (message error))]"
    by (simp add: uploadImageToS3_catch_def)
  with uploadImageToS3_of_error [OF assms(1)] show ?thesis by simp
qed

lemma processImage_net_dns:
  "processImage url 3 1500 (http net_dns) =
     ([HttpsRequest url, ConsoleWarn (RetryingDueToError (message dns_error) 1), SetTimeout 1500,
       HttpsRequest url, ConsoleWarn (RetryingDueToError (message dns_error) 2), SetTimeout 1500,
       HttpsRequest url, ConsoleWarn (RetryingDueToError (message dns_error) 3), SetTimeout 1500,
       HttpsRequest url, ConsoleError (FailedToFetch url (message dns_error))],
      Some (Inl dns_error))"
  by (simp add: processImage_def net_dns_def answered_def always_dns_error_def attempt.simps)

lemma configureS3_example_env:
  "configureS3 example_env =
     Some \<lparr>accessKeyId = ''AKIAEXAMPLE'', secretAccessKey = ''secret'', region = ''us-east-2'',
           endpoint = ''https://s3.us-east-2.amazonaws.com''\<rparr>"
  by (simp add: configureS3_def example_env_def)

theorem uploadImageToS3_dns_failure_witness:
  "snd (uploadImageToS3_try example_env net_dns example_image) = Some (Inl dns_error) \<and>
   code dns_error = Some ''ENOTFOUND'' \<and>
   snd (uploadImageToS3 example_env net_dns example_image) =
     Some (Inr \<lparr>location = ''images/a.png'', uploaded = False\<rparr>) \<and>
   last (fst (uploadImageToS3 example_env net_dns example_image)) =
     ConsoleWarn (SkippingImageUpload (Some ''getaddrinfo ENOTFOUND img.example''))"
proof -
  obtain evs where t:
    "uploadImageToS3_try example_env net_dns example_image = (evs, Some (Inl dns_error))"
    by (simp add: uploadImageToS3_try_def example_image_def configureS3_example_env
        processImage_net_dns)
  have c: "code dns_error = Some ''ENOTFOUND''" by (simp add: dns_error_def)
  then have "code dns_error = Some ''ENOTFOUND'' \<or>
      (\<exists>m. message dns_error = Some m \<and> sublist ''ENOTFOUND'' m)" ..
  from uploadImageToS3_dns_failure [OF t this] t c show ?thesis
    by (simp add: example_image_def dns_error_def)
qed

text \<open>
  C3. \<open>uploadImageToS3\<close> never rejects: whatever the \<open>try\<close> block throws (no image
  link, no S3 client, the download failing after its retries, \<open>s3.send\<close> failing) is
  caught, and the call resolves with \<open>{ location, uploaded: false }\<close>. It resolves with
  \<open>{ location, uploaded: true }\<close> exactly when the download and the put both succeed; and
  with \<open>{ location, uploaded: false }\<close> exactly when the \<open>try\<close> block throws, which on a
  network where every request runs a callback is whenever they do not both succeed.
\<close>

theorem uploadImageToS3_never_rejects:
  "(\<forall>error. snd (uploadImageToS3 env net inp) \<noteq> Some (Inl error)) \<and>
   (\<forall>evs error. uploadImageToS3_try env net inp = (evs, Some (Inl error)) \<longrightarrow>
      snd (uploadImageToS3 env net inp) =
        Some (Inr \<lparr>location = UploadToS3Type.location inp, uploaded = False\<rparr>)) \<and>
   (snd (uploadImageToS3 env net inp) =
      Some (Inr \<lparr>location = UploadToS3Type.location inp, uploaded = True\<rparr>)
    \<longleftrightarrow> download_and_put_succeed env net inp) \<and>
   (snd (uploadImageToS3 env net inp) =
      Some (Inr \<lparr>location = UploadToS3Type.location inp, uploaded = False\<rparr>)
    \<longleftrightarrow> (\<exists>evs error. uploadImageToS3_try env net inp = (evs, Some (Inl error)))) \<and>
   (snd (uploadImageToS3 env (answered c send) inp) =
      Some (Inr \<lparr>location = UploadToS3Type.location inp, uploaded = False\<rparr>)
    \<longleftrightarrow> \<not> download_and_put_succeed env (answered c send) inp)"
proof -
  note r = uploadImageToS3_result [of env net inp]
  have 1: "\<forall>error. snd (uploadImageToS3 env net inp) \<noteq> Some (Inl error)"
    using r by (simp split: if_splits)
  have 2: "\<forall>evs error. uploadImageToS3_try env net inp = (evs, Some (Inl error)) \<longrightarrow>
      snd (uploadImageToS3 env net inp) =
        Some (Inr \<lparr>location = UploadToS3Type.location inp, uploaded = False\<rparr>)"
    using uploadImageToS3_of_error [of env net inp] by simp
  have 3: "snd (uploadImageToS3 env net inp) =
      Some (Inr \<lparr>location = UploadToS3Type.location inp, uploaded = True\<rparr>)
    \<longleftrightarrow> download_and_put_succeed env net inp"
  proof (cases "uploadImageToS3_try env net inp")
    case (Pair evs v)
    with r uploadImageToS3_try_pending [of env net inp evs] show ?thesis
      by (cases v) auto
  qed
  have 4: "snd (uploadImageToS3 env net inp) =
      Some (Inr \<lparr>location = UploadToS3Type.location inp, uploaded = False\<rparr>)
    \<longleftrightarrow> (\<exists>evs error. uploadImageToS3_try env net inp = (evs, Some (Inl error)))"
  proof (cases "uploadImageToS3_try env net inp")
    case (Pair evs v)
    show ?thesis
    proof (cases v)
      case None
      with Pair r show ?thesis by simp
    next
      case (Some u)
      show ?thesis
      proof (cases u)
        case (Inl error)
        with Pair Some 2 show ?thesis by auto
      next
        case (Inr w)
        with Pair Some uploadImageToS3_of_value [of env net inp evs w]
          uploadImageToS3_try_value [of env net inp evs w]
        show ?thesis by auto
      qed
    qed
  qed
  have 5: "snd (uploadImageToS3 env (answered c send) inp) =
      Some (Inr \<lparr>location = UploadToS3Type.location inp, uploaded = False\<rparr>)
    \<longleftrightarrow> \<not> download_and_put_succeed env (answered c send) inp"
    by (simp add: uploadImageToS3_result_answered)
  from 1 2 3 4 5 show ?thesis by (intro conjI)
qed

lemma processImage_net_ok:
  "snd (processImage url 3 1500 (http net_ok)) = Some (Inr [1, 2, 3])"
  by (simp add: processImage_def net_ok_def answered_def example_flaky_def attempt.simps)

lemma processImage_net_denied:
  "snd (processImage url 3 1500 (http net_denied)) = Some (Inr [7])"
  by (simp add: processImage_def net_denied_def answered_def always_200_def attempt.simps)

lemma download_and_put_succeed_net_ok:
  "download_and_put_succeed example_env net_ok example_image"
  using processImage_net_ok [of "''https://img.example/a.png''"]
  by (simp add: download_and_put_succeed_def example_image_def configureS3_example_env)
    (simp add: net_ok_def answered_def s3_accepts_def)

lemma download_and_put_succeed_net_denied:
  "\<not> download_and_put_succeed example_env net_denied example_image"
  using processImage_net_denied [of "''https://img.example/a.png''"]
  by (simp add: download_and_put_succeed_def example_image_def configureS3_example_env)
    (simp add: net_denied_def answered_def s3_denies_def)

theorem uploadImageToS3_never_rejects_witness:
  "download_and_put_succeed example_env net_ok example_image \<and>
   snd (uploadImageToS3 example_env net_ok example_image) =
     Some (Inr \<lparr>location = ''images/a.png'', uploaded = True\<rparr>) \<and>
   \<not> download_and_put_succeed example_env net_denied example_image \<and>
   snd (uploadImageToS3 example_env net_denied example_image) =
     Some (Inr \<lparr>location = ''images/a.png'', uploaded = False\<rparr>) \<and>
   \<not> download_and_put_succeed example_env net_ok example_no_link \<and>
   snd (uploadImageToS3 example_env net_ok example_no_link) =
     Some (Inr \<lparr>location = ''images/b.png'', uploaded = False\<rparr>)"
proof -
  note a = download_and_put_succeed_net_ok
  note b = download_and_put_succeed_net_denied
  have c: "\<not> download_and_put_succeed example_env net_ok example_no_link"
    by (simp add: download_and_put_succeed_def example_no_link_def)
  have l: "UploadToS3Type.location example_image = ''images/a.png''"
    "UploadToS3Type.location example_no_link = ''images/b.png''"
    by (simp_all add: example_image_def example_no_link_def)
  have n: "net_ok = answered example_flaky s3_accepts" "net_denied = answered always_200 s3_denies"
    by (simp_all add: net_ok_def net_denied_def)
  from a b c l
    uploadImageToS3_never_rejects [of example_env net_ok example_image example_flaky s3_accepts]
    uploadImageToS3_never_rejects [of example_env net_denied example_image always_200 s3_denies]
    uploadImageToS3_never_rejects [of example_env net_ok example_no_link example_flaky s3_accepts]
  show ?thesis unfolding n [symmetric] by simp
qed

text \<open>
  C7. What \<open>uploadImageToS3\<close> resolves with is always a record of a \<open>location\<close> and an
  \<open>uploaded\<close> flag, and its \<open>location\<close> is the \<open>location\<close> of the input: when the \<open>try\<close>
  block returns, when it throws a DNS failure, and when it throws anything else. On a
  network where every request runs a callback, the call does resolve.
\<close>

theorem uploadImageToS3_keeps_location:
  "(\<exists>evs u. uploadImageToS3 env (answered c send) inp =
      (evs, Some (Inr \<lparr>location = UploadToS3Type.location inp, uploaded = u\<rparr>))) \<and>
   (\<forall>evs r. uploadImageToS3 env net inp = (evs, Some (Inr r)) \<longrightarrow>
      UploadReturnType.location r = UploadToS3Type.location inp) \<and>
   (\<forall>evs error. uploadImageToS3_try env net inp = (evs, Some (Inl error)) \<longrightarrow>
      (\<exists>logs. uploadImageToS3 env net inp =
         (evs @ logs,
          Some (Inr \<lparr>location = UploadToS3Type.location inp, uploaded = False\<rparr>))))"
proof -
  have 1: "\<exists>evs u. uploadImageToS3 env (answered c send) inp =
      (evs, Some (Inr \<lparr>location = UploadToS3Type.location inp, uploaded = u\<rparr>))"
    using uploadImageToS3_result_answered [of env c send inp]
    by (cases "uploadImageToS3 env (answered c send) inp") auto
  have 2: "\<forall>evs r. uploadImageToS3 env net inp = (evs, Some (Inr r)) \<longrightarrow>
      UploadReturnType.location r = UploadToS3Type.location inp"
    using uploadImageToS3_result [of env net inp] by (auto split: if_splits)
  have 3: "\<forall>evs error. uploadImageToS3_try env net inp = (evs, Some (Inl error)) \<longrightarrow>
      (\<exists>logs. uploadImageToS3 env net inp =
         (evs @ logs,
          Some (Inr \<lparr>location = UploadToS3Type.location inp, uploaded = False\<rparr>)))"
    using uploadImageToS3_of_error [of env net inp] by blast
  from 1 2 3 show ?thesis by (intro conjI)
qed

theorem uploadImageToS3_keeps_location_witness:
  "(\<exists>evs u. uploadImageToS3 example_env net_ok example_image =
      (evs, Some (Inr \<lparr>location = ''images/a.png'', uploaded = u\<rparr>))) \<and>
   (\<exists>evs u. uploadImageToS3 example_env net_dns example_image =
      (evs, Some (Inr \<lparr>location = ''images/a.png'', uploaded = u\<rparr>))) \<and>
   (\<exists>evs u. uploadImageToS3 example_env net_denied example_image =
      (evs, Some (Inr \<lparr>location = ''images/a.png'', uploaded = u\<rparr>)))"
proof -
  have "\<exists>evs u. uploadImageToS3 example_env (answered c send) example_image =
      (evs, Some (Inr \<lparr>location = ''images/a.png'', uploaded = u\<rparr>))" for c send
    using uploadImageToS3_keeps_location [of example_env c send example_image]
    by (simp add: example_image_def)
  then show ?thesis by (simp add: net_ok_def net_dns_def net_denied_def)
qed

text \<open>
  C10. When the input has no image link (\<open>undefined\<close> or the empty string),
  \<open>uploadImageToS3\<close> issues no HTTPS request and sends nothing to S3: it logs the error and
  resolves with \<open>{ location, uploaded: false }\<close>.
\<close>

theorem uploadImageToS3_without_link:
  assumes "originalImgLink inp = None \<or> originalImgLink inp = Some []"
  shows "uploadImageToS3 env net inp =
           ([ConsoleError (ErrorUploadingImage (map_option (take 50) (originalImgLink inp))
               (new_Error ''Image link is undefined''))],
            Some (Inr \<lparr>location = UploadToS3Type.location inp, uploaded = False\<rparr>)) \<and>
         filter is_https_request (fst (uploadImageToS3 env net inp)) = [] \<and>
         filter is_s3_send (fst (uploadImageToS3 env net inp)) = []"
proof -
  from assms have t: "uploadImageToS3_try env net inp =
      ([], Some (Inl (new_Error ''Image link is undefined'')))"
    by (auto simp: uploadImageToS3_try_def)
  have "\<not> is_network_issue (new_Error ''Image link is undefined'')"
    by (simp add: is_network_issue_def new_Error_def)
  then have "uploadImageToS3_catch inp (new_Error ''Image link is undefined'') =
      ([ConsoleError (ErrorUploadingImage (map_option (take 50) (originalImgLink inp))
          (new_Error ''Image link is undefined''))],
       Inr \<lparr>location = UploadToS3Type.location inp, uploaded = False\<rparr>)"
    by (simp add: uploadImageToS3_catch_def)
  with t show ?thesis by (simp add: uploadImageToS3_def)
qed

theorem uploadImageToS3_without_link_witness:
  "originalImgLink example_no_link = None \<and>
   filter is_https_request (fst (uploadImageToS3 example_env net_ok example_no_link)) = [] \<and>
   filter is_s3_send (fst (uploadImageToS3 example_env net_ok example_no_link)) = [] \<and>
   snd (uploadImageToS3 example_env net_ok example_no_link) =
     Some (Inr \<lparr>location = ''images/b.png'', uploaded = False\<rparr>)"
proof -
  have n: "originalImgLink example_no_link = None" by (simp add: example_no_link_def)
  then have "originalImgLink example_no_link = None \<or> originalImgLink example_no_link = Some []" ..
  from uploadImageToS3_without_link [OF this, of example_env net_ok] n
  show ?thesis by (simp add: example_no_link_def)
qed

section \<open>The database connection\<close>

lemma connect_invocations_append:
  "connect_invocations (xs @ ys) = connect_invocations xs + connect_invocations ys"
  by (induction xs rule: connect_invocations.induct) simp_all

lemma connections_established_append:
  "connections_established (xs @ ys) = connections_established xs + connections_established ys"
  by (induction xs rule: connections_established.induct) simp_all

lemma connectDB_when_connected:
  assumes "isConnected s" and "awaiting s = 0"
  shows "connectDB uri s outcome = s\<lparr>db_log := db_log s @ [CallResolved]\<rparr>"
  using assms by (simp add: connectDB_def connectDB_start_def connectDB_resume_def)

lemma db_step_when_connected:
  assumes "isConnected s" and "awaiting s = 0"
  shows "isConnected (db_step uri s a) \<and> awaiting (db_step uri s a) = 0 \<and>
         connect_invocations (db_log (db_step uri s a)) = connect_invocations (db_log s) \<and>
         connections_established (db_log (db_step uri s a)) = connections_established (db_log s)"
  using assms
  by (cases a)
    (simp_all add: connectDB_start_def connectDB_resume_def connect_invocations_append
      connections_established_append)

lemma db_run_when_connected:
  assumes "isConnected s" and "awaiting s = 0"
  shows "isConnected (db_run uri s actions) \<and> awaiting (db_run uri s actions) = 0 \<and>
         connect_invocations (db_log (db_run uri s actions)) = connect_invocations (db_log s) \<and>
         connections_established (db_log (db_run uri s actions)) =
           connections_established (db_log s)"
  using assms
proof (induction actions arbitrary: s)
  case Nil
  then show ?case by (simp add: db_run_def)
next
  case (Cons a actions)
  from db_step_when_connected [OF Cons.prems, of uri a]
  have step: "isConnected (db_step uri s a)" "awaiting (db_step uri s a) = 0"
    "connect_invocations (db_log (db_step uri s a)) = connect_invocations (db_log s)"
    "connections_established (db_log (db_step uri s a)) = connections_established (db_log s)"
    by simp_all
  from Cons.IH [OF step(1,2)] step(3,4) show ?case by (simp add: db_run_def)
qed

lemma connectDB_established_step:
  assumes "awaiting s = 0" and "\<not> resolves_unready outcome"
  shows "awaiting (connectDB uri s outcome) = 0 \<and>
         connections_established (db_log (connectDB uri s outcome)) +
             (if isConnected (connectDB uri s outcome) then 0 else 1)
           \<le> connections_established (db_log s) + (if isConnected s then 0 else 1)"
proof (cases "isConnected s")
  case True
  with assms(1) connectDB_when_connected [of s uri outcome] show ?thesis
    by (simp add: connections_established_append)
next
  case False
  with assms show ?thesis
    by (cases outcome rule: resolves_unready.cases)
      (simp_all add: connectDB_def connectDB_start_def connectDB_resume_def
        connections_established_append)
qed

lemma connectDB_sequence_established:
  assumes "awaiting s = 0" and "list_all (\<lambda>outcome. \<not> resolves_unready outcome) outcomes"
  shows "connections_established (db_log (foldl (connectDB uri) s outcomes)) +
             (if isConnected (foldl (connectDB uri) s outcomes) then 0 else 1)
           \<le> connections_established (db_log s) + (if isConnected s then 0 else 1)"
  using assms
proof (induction outcomes arbitrary: s)
  case Nil
  show ?case by simp
next
  case (Cons outcome outcomes)
  from Cons.prems have a: "\<not> resolves_unready outcome"
    and b: "list_all (\<lambda>outcome. \<not> resolves_unready outcome) outcomes" by simp_all
  from connectDB_established_step [OF Cons.prems(1) a, of uri]
  have s1: "awaiting (connectDB uri s outcome) = 0"
    and s2: "connections_established (db_log (connectDB uri s outcome)) +
             (if isConnected (connectDB uri s outcome) then 0 else 1)
           \<le> connections_established (db_log s) + (if isConnected s then 0 else 1)"
    by simp_all
  from Cons.IH [OF s1 b] s2 show ?case by simp
qed

text \<open>
  Without overlap the flag can still stay unset after a connection attempt that resolved,
  and the next call connects again.
\<close>

lemma connectDB_unready_reconnects:
  "db_log (foldl (connectDB ''mongodb://db'') db_init [ConnectResolves [0], ConnectResolves [1]]) =
     [MongooseConnect ''mongodb://db'', LogConnected, CallResolved,
      MongooseConnect ''mongodb://db'', LogConnected, CallResolved]"
  by (simp add: connectDB_def connectDB_start_def connectDB_resume_def db_init_def)

text \<open>
  C8 as stated fails where two calls overlap: both find the flag unset, since it is only
  set after the \<open>await\<close>, both invoke \<open>mongoose.connect\<close>, and both attempts succeed.
\<close>

theorem connectDB_overlap_counterexample:
  "db_log (db_run ''mongodb://db'' db_init overlapping_calls) =
     [MongooseConnect ''mongodb://db'', MongooseConnect ''mongodb://db'',
      LogConnected, CallResolved, LogConnected, CallResolved] \<and>
   connect_invocations (db_log (db_run ''mongodb://db'' db_init overlapping_calls)) = 2 \<and>
   connections_established (db_log (db_run ''mongodb://db'' db_init overlapping_calls)) = 2"
  by (simp add: db_run_def overlapping_calls_def db_init_def connectDB_start_def
      connectDB_resume_def)

text \<open>
  C8, amended. A call of \<open>connectDB\<close> that finds the flag set returns at once without
  invoking \<open>mongoose.connect\<close>. Once the flag is set and no call is suspended at
  \<open>mongoose.connect\<close>, this stays so whatever calls follow: the flag stays set, no
  connection attempt is made and none succeeds. And in a life of the process where the
  calls do not overlap and no attempt resolves with an unready connection, at most one
  connection attempt succeeds.
\<close>

theorem connectDB_idempotent_once_connected:
  "(isConnected s \<longrightarrow> connectDB_start uri s = s\<lparr>db_log := db_log s @ [CallResolved]\<rparr>) \<and>
   (isConnected s \<and> awaiting s = 0 \<longrightarrow>
      connectDB uri s outcome = s\<lparr>db_log := db_log s @ [CallResolved]\<rparr> \<and>
      isConnected (db_run uri s actions) \<and>
      connect_invocations (db_log (db_run uri s actions)) = connect_invocations (db_log s) \<and>
      connections_established (db_log (db_run uri s actions)) =
        connections_established (db_log s)) \<and>
   (list_all (\<lambda>outcome. \<not> resolves_unready outcome) outcomes \<longrightarrow>
      connections_established (db_log (foldl (connectDB uri) db_init outcomes)) \<le> 1)"
proof -
  have "connections_established (db_log (foldl (connectDB uri) db_init outcomes)) \<le> 1"
    if "list_all (\<lambda>outcome. \<not> resolves_unready outcome) outcomes"
  proof -
    have "awaiting db_init = 0" by (simp add: db_init_def)
    from connectDB_sequence_established [OF this that, of uri]
    show ?thesis by (simp add: db_init_def split: if_splits)
  qed
  moreover have "isConnected s \<longrightarrow>
      connectDB_start uri s = s\<lparr>db_log := db_log s @ [CallResolved]\<rparr>"
    by (simp add: connectDB_start_def)
  ultimately show ?thesis
    using connectDB_when_connected [of s uri outcome] db_run_when_connected [of s uri actions]
    by blast
qed

theorem connectDB_idempotent_once_connected_witness:
  "isConnected (connectDB ''mongodb://db'' db_init (ConnectResolves [1])) \<and>
   awaiting (connectDB ''mongodb://db'' db_init (ConnectResolves [1])) = 0 \<and>
   connect_invocations (db_log (db_run ''mongodb://db''
      (connectDB ''mongodb://db'' db_init (ConnectResolves [1]))
      [CallConnectDB, ConnectSettles (ConnectResolves [1]), CallConnectDB])) = 1 \<and>
   list_all (\<lambda>outcome. \<not> resolves_unready outcome)
      [ConnectRejects (new_Error ''timeout''), ConnectResolves [1], ConnectResolves [1]] \<and>
   connections_established (db_log (foldl (connectDB ''mongodb://db'') db_init
      [ConnectRejects (new_Error ''timeout''), ConnectResolves [1], ConnectResolves [1]])) \<le> 1"
proof -
  let ?s = "connectDB ''mongodb://db'' db_init (ConnectResolves [1])"
  have a: "isConnected ?s" and b: "awaiting ?s = 0"
    and c: "connect_invocations (db_log ?s) = 1"
    by (simp_all add: connectDB_def connectDB_start_def connectDB_resume_def db_init_def)
  have d: "list_all (\<lambda>outcome. \<not> resolves_unready outcome)
      [ConnectRejects (new_Error ''timeout''), ConnectResolves [1], ConnectResolves [1]]"
    by simp
  note t = connectDB_idempotent_once_connected [of ?s "''mongodb://db''" "ConnectResolves [1]"
      "[CallConnectDB, ConnectSettles (ConnectResolves [1]), CallConnectDB]"
      "[ConnectRejects (new_Error ''timeout''), ConnectResolves [1], ConnectResolves [1]]"]
  note t1 = mp [OF t [THEN conjunct2, THEN conjunct1] conjI [OF a b]]
  note p = t1 [THEN conjunct2, THEN conjunct2, THEN conjunct1]
  note q = mp [OF t [THEN conjunct2, THEN conjunct2] d]
  from c p have "connect_invocations (db_log (db_run ''mongodb://db'' ?s
      [CallConnectDB, ConnectSettles (ConnectResolves [1]), CallConnectDB])) = 1"
    by simp
  with a b d q show ?thesis by (intro conjI)
qed

section \<open>The upload of several images\<close>

subsection \<open>A callback does not change what a call will settle with\<close>










subsection \<open>When every request runs a callback, every callback brings a call nearer to its end\<close>






subsection \<open>The pool under a schedule\<close>




















subsection \<open>The function as a whole\<close>














end
